theory Spec2Isabelle
  imports Complex_Main
begin

section \<open>Nested values and flat mappings\<close>

text \<open>
  The functions \<^verbatim>\<open>flatten\<close> and \<^verbatim>\<open>unflatten\<close> of \<^verbatim>\<open>cartridges/utils/wandb.py\<close>
  convert between nested dictionaries and lists and flat dictionaries whose keys are
  paths joined by a separator.

  A leaf of a nested value is anything that is neither a list nor a dictionary.
  \<open>PNaN\<close> stands for a NaN of type \<^verbatim>\<open>float\<close>, \<^verbatim>\<open>np.float32\<close> or \<^verbatim>\<open>np.float64\<close>,
  which are the values the NaN test of \<^verbatim>\<open>unflatten\<close> recognises; \<open>PFloat\<close> is any
  other float.
\<close>

datatype scalar = PNone | PBool bool | PInt int | PFloat real | PNaN | PStr string

text \<open>
  A Python dictionary keeps its keys in insertion order and holds each key once. It is
  modelled as an association list in insertion order; the keys of a dictionary the
  program can hold are distinct. Strings are lists of ASCII characters.
\<close>

datatype nested =
    Scalar scalar
  | Seq "nested list"
  | Mapping "(string \<times> nested) list"

text \<open>
  The keys of a flat dictionary are \<open>string option\<close>: \<^verbatim>\<open>flatten\<close> stores a leaf at the
  root under its \<^verbatim>\<open>parent_key\<close>, which is \<^verbatim>\<open>None\<close> there.
\<close>

type_synonym flat = "(string option \<times> scalar) list"

datatype error = AttributeError | TypeError | KeyError | ValueError

subsection \<open>Dictionary operations\<close>

text \<open>\<^verbatim>\<open>d[k] = v\<close>: an existing key keeps its position, a new key goes last.\<close>

fun dict_set :: "('k \<times> 'v) list \<Rightarrow> 'k \<Rightarrow> 'v \<Rightarrow> ('k \<times> 'v) list" where
  "dict_set [] k v = [(k, v)]"
| "dict_set ((k', v') # kvs) k v =
     (if k' = k then (k', v) # kvs else (k', v') # dict_set kvs k v)"

text \<open>\<^verbatim>\<open>items.update(other)\<close>: the entries of \<open>other\<close> are stored one by one, in order.\<close>

fun dict_update :: "('k \<times> 'v) list \<Rightarrow> ('k \<times> 'v) list \<Rightarrow> ('k \<times> 'v) list" where
  "dict_update items [] = items"
| "dict_update items ((k, v) # other) = dict_update (dict_set items k v) other"

subsection \<open>Decimal rendering of integers\<close>

definition decimal_digits :: string where
  "decimal_digits = ''0123456789''"

definition digit_char :: "nat \<Rightarrow> char" where
  "digit_char d = decimal_digits ! d"

text \<open>\<^verbatim>\<open>str(i)\<close> for a list index \<open>i\<close>.\<close>

fun str_nat :: "nat \<Rightarrow> string" where
  "str_nat n = (if n < 10 then [digit_char n] else str_nat (n div 10) @ [digit_char (n mod 10)])"

declare str_nat.simps [simp del]

text \<open>\<^verbatim>\<open>str(k)\<close> for an integer \<open>k\<close>.\<close>

definition str_int :: "int \<Rightarrow> string" where
  "str_int k = (if k < 0 then CHR ''-'' # str_nat (nat (- k)) else str_nat (nat k))"

section \<open>flatten\<close>

text \<open>
  \<^verbatim>\<open>new_key = f"{parent_key}{sep}{k}" if parent_key is not None else k\<close>, with \<open>k\<close> a
  dictionary key or \<^verbatim>\<open>str(i)\<close> for a list index.
\<close>

definition new_key :: "string option \<Rightarrow> string \<Rightarrow> string \<Rightarrow> string" where
  "new_key parent_key sep k = (case parent_key of Some p \<Rightarrow> p @ sep @ k | None \<Rightarrow> k)"

text \<open>
  \<open>flatten_list\<close> is the loop over \<^verbatim>\<open>enumerate(data)\<close> and \<open>flatten_dict\<close> the loop over
  \<^verbatim>\<open>data.items()\<close>; both carry the dictionary \<^verbatim>\<open>items\<close> built so far.
\<close>

fun flatten :: "nested \<Rightarrow> string option \<Rightarrow> string \<Rightarrow> flat"
  and flatten_list :: "nested list \<Rightarrow> nat \<Rightarrow> string option \<Rightarrow> string \<Rightarrow> flat \<Rightarrow> flat"
  and flatten_dict :: "(string \<times> nested) list \<Rightarrow> string option \<Rightarrow> string \<Rightarrow> flat \<Rightarrow> flat"
where
  "flatten (Seq xs) parent_key sep = flatten_list xs 0 parent_key sep []"
| "flatten (Mapping kvs) parent_key sep = flatten_dict kvs parent_key sep []"
| "flatten (Scalar s) parent_key sep = dict_set [] parent_key s"
| "flatten_list [] i parent_key sep items = items"
| "flatten_list (v # vs) i parent_key sep items =
     flatten_list vs (Suc i) parent_key sep
       (dict_update items (flatten v (Some (new_key parent_key sep (str_nat i))) sep))"
| "flatten_dict [] parent_key sep items = items"
| "flatten_dict ((k, v) # kvs) parent_key sep items =
     flatten_dict kvs parent_key sep
       (dict_update items (flatten v (Some (new_key parent_key sep k)) sep))"

section \<open>unflatten\<close>

subsection \<open>Parsing integers\<close>

text \<open>
  \<^verbatim>\<open>int(k)\<close> for a string \<open>k\<close>: white space is stripped at both ends, one sign may
  come first, and the rest is decimal digits, where one underscore may stand between
  two digits. Anything else raises \<^verbatim>\<open>ValueError\<close>, which is \<open>None\<close> here. (The
  interpreter's bound on the number of digits is not modelled.)
\<close>

definition is_space :: "char \<Rightarrow> bool" where
  "is_space c \<longleftrightarrow> c = CHR '' '' \<or> c = CHR 0x09 \<or> c = CHR 0x0A \<or> c = CHR 0x0B
     \<or> c = CHR 0x0C \<or> c = CHR 0x0D"

definition strip :: "string \<Rightarrow> string" where
  "strip s = rev (dropWhile is_space (rev (dropWhile is_space s)))"

definition digit_val :: "char \<Rightarrow> nat option" where
  "digit_val c = map_of (zip decimal_digits [0..<10]) c"

text \<open>The digits after the first one; \<open>acc\<close> is the value read so far.\<close>

fun digits_val :: "string \<Rightarrow> nat \<Rightarrow> nat option" where
  "digits_val [] acc = Some acc"
| "digits_val (c # cs) acc =
     (if c = CHR ''_'' then
        (case cs of
           [] \<Rightarrow> None
         | d # ds \<Rightarrow>
             (case digit_val d of None \<Rightarrow> None | Some v \<Rightarrow> digits_val ds (10 * acc + v)))
      else
        (case digit_val c of None \<Rightarrow> None | Some v \<Rightarrow> digits_val cs (10 * acc + v)))"

definition unsigned :: "string \<Rightarrow> nat option" where
  "unsigned s =
     (case s of
        [] \<Rightarrow> None
      | c # cs \<Rightarrow> (case digit_val c of None \<Rightarrow> None | Some v \<Rightarrow> digits_val cs v))"

definition py_int :: "string \<Rightarrow> int option" where
  "py_int s =
     (case strip s of
        [] \<Rightarrow> None
      | c # cs \<Rightarrow>
          if c = CHR ''-'' then map_option (\<lambda>n. - int n) (unsigned cs)
          else if c = CHR ''+'' then map_option int (unsigned cs)
          else map_option int (unsigned (c # cs)))"


subsection \<open>Building the nested dictionary\<close>

text \<open>\<^verbatim>\<open>key.split(".")\<close>: the pieces between the separators, never an empty list.\<close>

fun str_split :: "string \<Rightarrow> char \<Rightarrow> string list" where
  "str_split [] c = [[]]"
| "str_split (x # xs) c =
     (if x = c then [] # str_split xs c
      else (case str_split xs c of [] \<Rightarrow> [[x]] | p # ps \<Rightarrow> (x # p) # ps))"

text \<open>
  \<^verbatim>\<open>isinstance(value, (np.float64, np.float32, float)) and np.isnan(value)\<close>
\<close>

fun is_nan :: "scalar \<Rightarrow> bool" where
  "is_nan PNaN = True"
| "is_nan _ = False"

text \<open>
  One round of the loop over \<^verbatim>\<open>d.items()\<close>, from the node \<^verbatim>\<open>d\<close> the cursor is at.
  The source moves the cursor down \<^verbatim>\<open>parts[:-1]\<close>, creating an empty dictionary for
  each part that is missing, then tests the value for NaN, then stores it under
  \<^verbatim>\<open>parts[-1]\<close>. The nodes are mutated in place; here the updated node is returned
  and put back into its parent at the same key. When the cursor is at a node that is
  not a dictionary, \<^verbatim>\<open>part not in d\<close>, \<^verbatim>\<open>d[part]\<close> and \<^verbatim>\<open>d[part] = ...\<close> raise
  \<^verbatim>\<open>TypeError\<close> (for a string the membership test succeeds and the subscript raises).
\<close>

fun walk :: "nested \<Rightarrow> string list \<Rightarrow> string \<Rightarrow> scalar \<Rightarrow> error + nested" where
  "walk (Mapping d) (part # parts) lst val =
     (let d1 = (if part \<notin> set (map fst d) then dict_set d part (Mapping []) else d) in
      case map_of d1 part of
        None \<Rightarrow> Inl KeyError
      | Some child \<Rightarrow>
          (case walk child parts lst val of
             Inl e \<Rightarrow> Inl e
           | Inr child' \<Rightarrow> Inr (Mapping (dict_set d1 part child'))))"
| "walk (Mapping d) [] lst val =
     (if is_nan val then Inr (Mapping d) else Inr (Mapping (dict_set d lst (Scalar val))))"
| "walk other (part # parts) lst val = Inl TypeError"
| "walk other [] lst val = (if is_nan val then Inr other else Inl TypeError)"

text \<open>
  The loop \<^verbatim>\<open>for key, value in d.items()\<close>. A key that is \<^verbatim>\<open>None\<close> has no
  \<^verbatim>\<open>split\<close>.
\<close>

fun unflatten_loop :: "nested \<Rightarrow> flat \<Rightarrow> error + nested" where
  "unflatten_loop result [] = Inr result"
| "unflatten_loop result ((key, val) # rest) =
     (case key of
        None \<Rightarrow> Inl AttributeError
      | Some k \<Rightarrow>
          (let parts = str_split k CHR ''.'' in
           case walk result (butlast parts) (last parts) val of
             Inl e \<Rightarrow> Inl e
           | Inr result' \<Rightarrow> unflatten_loop result' rest))"

subsection \<open>Converting dictionaries to lists\<close>

text \<open>\<^verbatim>\<open>[int(k) for k in d.keys()]\<close>\<close>

fun int_keys :: "string list \<Rightarrow> error + int list" where
  "int_keys [] = Inr []"
| "int_keys (k # ks) =
     (case py_int k of
        None \<Rightarrow> Inl ValueError
      | Some n \<Rightarrow> (case int_keys ks of Inl e \<Rightarrow> Inl e | Inr ns \<Rightarrow> Inr (n # ns)))"

text \<open>\<^verbatim>\<open>min(keys)\<close> and \<^verbatim>\<open>max(keys)\<close> raise \<^verbatim>\<open>ValueError\<close> on an empty list.\<close>

fun py_min :: "int list \<Rightarrow> error + int" where
  "py_min [] = Inl ValueError"
| "py_min (x # xs) = Inr (fold min xs x)"

fun py_max :: "int list \<Rightarrow> error + int" where
  "py_max [] = Inl ValueError"
| "py_max (x # xs) = Inr (fold max xs x)"

text \<open>\<^verbatim>\<open>[d[str(k)] for k in keys]\<close>: a missing key raises \<^verbatim>\<open>KeyError\<close>.\<close>

fun lookup_all :: "(string \<times> nested) list \<Rightarrow> int list \<Rightarrow> error + nested list" where
  "lookup_all d [] = Inr []"
| "lookup_all d (k # ks) =
     (case map_of d (str_int k) of
        None \<Rightarrow> Inl KeyError
      | Some v \<Rightarrow> (case lookup_all d ks of Inl e \<Rightarrow> Inl e | Inr vs \<Rightarrow> Inr (v # vs)))"

text \<open>
  The body of the \<^verbatim>\<open>try\<close> block of \<^verbatim>\<open>convert_to_list\<close>: \<open>Inr (Some r)\<close> is
  \<^verbatim>\<open>return r\<close>, \<open>Inr None\<close> is the end of the block without a return, \<open>Inl e\<close> is an
  exception raised inside the block.
\<close>

definition try_body :: "(string \<times> nested) list \<Rightarrow> error + nested option" where
  "try_body d =
     (case int_keys (map fst d) of
        Inl e \<Rightarrow> Inl e
      | Inr ks \<Rightarrow>
          (let keys = sort ks in
           case py_min keys of
             Inl e \<Rightarrow> Inl e
           | Inr lo \<Rightarrow>
               (case py_max keys of
                  Inl e \<Rightarrow> Inl e
                | Inr hi \<Rightarrow>
                    if keys = [lo..hi] then
                      (case lookup_all d keys of
                         Inl e \<Rightarrow> Inl e
                       | Inr vs \<Rightarrow> Inr (Some (Seq vs)))
                    else Inr None)))"

text \<open>
  \<open>convert_values\<close> is the comprehension
  \<^verbatim>\<open>{k: convert_to_list(v) for k, v in d.items()}\<close>. Only \<^verbatim>\<open>ValueError\<close> is caught
  by the \<^verbatim>\<open>except\<close> clause.
\<close>

fun convert_to_list :: "nested \<Rightarrow> error + nested"
  and convert_values :: "(string \<times> nested) list \<Rightarrow> error + (string \<times> nested) list"
where
  "convert_to_list (Mapping d) =
     (case try_body d of
        Inr (Some r) \<Rightarrow> Inr r
      | Inr None \<Rightarrow>
          (case convert_values d of Inl e \<Rightarrow> Inl e | Inr d' \<Rightarrow> Inr (Mapping d'))
      | Inl e \<Rightarrow>
          if e = ValueError then
            (case convert_values d of Inl e' \<Rightarrow> Inl e' | Inr d' \<Rightarrow> Inr (Mapping d'))
          else Inl e)"
| "convert_to_list (Seq xs) = Inr (Seq xs)"
| "convert_to_list (Scalar s) = Inr (Scalar s)"
| "convert_values [] = Inr []"
| "convert_values ((k, v) # kvs) =
     (case convert_to_list v of
        Inl e \<Rightarrow> Inl e
      | Inr v' \<Rightarrow>
          (case convert_values kvs of Inl e \<Rightarrow> Inl e | Inr kvs' \<Rightarrow> Inr ((k, v') # kvs')))"

definition unflatten :: "flat \<Rightarrow> error + nested" where
  "unflatten d =
     (case unflatten_loop (Mapping []) d of
        Inl e \<Rightarrow> Inl e
      | Inr result \<Rightarrow> convert_to_list result)"

section \<open>Reference definitions for the properties\<close>

subsection \<open>Flattening by prefixing\<close>

text \<open>
  The description of \<^verbatim>\<open>flatten\<close> by prefixing: the value under a key (or at a list
  position) is flattened on its own, and each of its keys is prefixed with the key (or
  the position in decimal) and the separator. A leaf flattened on its own has the key
  \<^verbatim>\<open>None\<close>, which becomes the key (or position) alone, with no separator.
\<close>

definition prefix_key :: "string \<Rightarrow> string \<Rightarrow> string option \<Rightarrow> string option" where
  "prefix_key seg sep key = (case key of None \<Rightarrow> Some seg | Some q \<Rightarrow> Some (seg @ sep @ q))"

definition prefixed :: "string \<Rightarrow> string \<Rightarrow> flat \<Rightarrow> flat" where
  "prefixed seg sep items = map (\<lambda>(key, s). (prefix_key seg sep key, s)) items"

fun flatten_spec :: "nested \<Rightarrow> string \<Rightarrow> flat"
  and flatten_spec_list :: "nested list \<Rightarrow> nat \<Rightarrow> string \<Rightarrow> flat \<Rightarrow> flat"
  and flatten_spec_dict :: "(string \<times> nested) list \<Rightarrow> string \<Rightarrow> flat \<Rightarrow> flat"
where
  "flatten_spec (Scalar s) sep = [(None, s)]"
| "flatten_spec (Seq xs) sep = flatten_spec_list xs 0 sep []"
| "flatten_spec (Mapping kvs) sep = flatten_spec_dict kvs sep []"
| "flatten_spec_list [] i sep items = items"
| "flatten_spec_list (v # vs) i sep items =
     flatten_spec_list vs (Suc i) sep
       (dict_update items (prefixed (str_nat i) sep (flatten_spec v sep)))"
| "flatten_spec_dict [] sep items = items"
| "flatten_spec_dict ((k, v) # kvs) sep items =
     flatten_spec_dict kvs sep (dict_update items (prefixed k sep (flatten_spec v sep)))"

text \<open>
  The example of the docstring of \<^verbatim>\<open>flatten\<close>:
  \<^verbatim>\<open>{"a": 1, "b": {"c": 2, "d": {"e": 3}}, "f": [4, 5]}\<close>.
\<close>

definition nested_example :: nested where
  "nested_example =
     Mapping [(''a'', Scalar (PInt 1)),
              (''b'', Mapping [(''c'', Scalar (PInt 2)), (''d'', Mapping [(''e'', Scalar (PInt 3))])]),
              (''f'', Seq [Scalar (PInt 4), Scalar (PInt 5)])]"

subsection \<open>Leaves and their paths\<close>

text \<open>
  The leaves of a nested value in the order of traversal, each with its path from the
  root: the dictionary keys and list positions (in decimal) on the way.
\<close>

fun leaves :: "nested \<Rightarrow> (string list \<times> scalar) list"
  and leaves_list :: "nested list \<Rightarrow> nat \<Rightarrow> (string list \<times> scalar) list"
  and leaves_dict :: "(string \<times> nested) list \<Rightarrow> (string list \<times> scalar) list"
where
  "leaves (Scalar s) = [([], s)]"
| "leaves (Seq xs) = leaves_list xs 0"
| "leaves (Mapping kvs) = leaves_dict kvs"
| "leaves_list [] i = []"
| "leaves_list (v # vs) i = map (\<lambda>(p, s). (str_nat i # p, s)) (leaves v) @ leaves_list vs (Suc i)"
| "leaves_dict [] = []"
| "leaves_dict ((k, v) # kvs) = map (\<lambda>(p, s). (k # p, s)) (leaves v) @ leaves_dict kvs"

fun count_leaves :: "nested \<Rightarrow> nat" where
  "count_leaves (Scalar s) = 1"
| "count_leaves (Seq xs) = sum_list (map count_leaves xs)"
| "count_leaves (Mapping kvs) = sum_list (map (\<lambda>(k, v). count_leaves v) kvs)"

text \<open>The flat key of a path: its segments joined by dots; \<^verbatim>\<open>None\<close> for the root.\<close>

fun join_path :: "string list \<Rightarrow> string" where
  "join_path [] = []"
| "join_path [seg] = seg"
| "join_path (seg # p) = seg @ ''.'' @ join_path p"

definition path_key :: "string list \<Rightarrow> string option" where
  "path_key p = (if p = [] then None else Some (join_path p))"

text \<open>The flat dictionary that stores each leaf under the key of its path.\<close>

definition flat_of_leaves :: "(string list \<times> scalar) list \<Rightarrow> flat" where
  "flat_of_leaves ls = map (\<lambda>(p, s). (path_key p, s)) ls"

text \<open>No segment of a path in the list contains a dot.\<close>

definition dot_free_paths :: "(string list \<times> scalar) list \<Rightarrow> bool" where
  "dot_free_paths ls \<longleftrightarrow> (\<forall>p \<in> set (map fst ls). \<forall>seg \<in> set p. CHR ''.'' \<notin> set seg)"

text \<open>The keys of every dictionary in the value are distinct, as in any dictionary.\<close>

fun distinct_keys :: "nested \<Rightarrow> bool" where
  "distinct_keys (Scalar s) = True"
| "distinct_keys (Seq xs) = (\<forall>x \<in> set xs. distinct_keys x)"
| "distinct_keys (Mapping kvs) =
     (distinct (map fst kvs) \<and> (\<forall>(k, v) \<in> set kvs. distinct_keys v))"

text \<open>No dictionary key in the value contains the separator \<^verbatim>\<open>"."\<close>.\<close>

fun keys_dot_free :: "nested \<Rightarrow> bool" where
  "keys_dot_free (Scalar s) = True"
| "keys_dot_free (Seq xs) = (\<forall>x \<in> set xs. keys_dot_free x)"
| "keys_dot_free (Mapping kvs) =
     (\<forall>(k, v) \<in> set kvs. CHR ''.'' \<notin> set k \<and> keys_dot_free v)"

section \<open>Properties of unflatten on given inputs\<close>

text \<open>
  C7. NaN-drop: \<^verbatim>\<open>unflatten({"a.b": 1, "a.c": float("nan")})\<close> returns
  \<^verbatim>\<open>{"a": {"b": 1}}\<close>; the result has no entry for the key \<^verbatim>\<open>"c"\<close>. The same holds
  when the NaN entry comes first.
\<close>

theorem unflatten_nan_drop:
  "unflatten [(Some ''a.b'', PInt 1), (Some ''a.c'', PNaN)]
     = Inr (Mapping [(''a'', Mapping [(''b'', Scalar (PInt 1))])])
   \<and> unflatten [(Some ''a.c'', PNaN), (Some ''a.b'', PInt 1)]
     = Inr (Mapping [(''a'', Mapping [(''b'', Scalar (PInt 1))])])"
  by code_simp

text \<open>
  C9. \<^verbatim>\<open>unflatten\<close> does not return on every flat dictionary: on
  \<^verbatim>\<open>{"a": 1, "a.b": 2}\<close>, in this order, the leaf stored under \<^verbatim>\<open>"a"\<close> is where the
  cursor stands when the entry \<^verbatim>\<open>"a.b"\<close> is stored, and \<^verbatim>\<open>TypeError\<close> is raised.
\<close>

theorem unflatten_prefix_key_raises:
  "walk (Mapping [(''a'', Scalar (PInt 1))]) [''a''] ''b'' (PInt 2) = Inl TypeError
   \<and> unflatten [(Some ''a'', PInt 1), (Some ''a.b'', PInt 2)] = Inl TypeError"
  by code_simp

text \<open>
  C10. The conversion pass is safe on an empty dictionary: the minimum of the empty
  list of keys raises \<^verbatim>\<open>ValueError\<close> inside the \<^verbatim>\<open>try\<close> block, the exception is
  caught, and the empty dictionary is returned; so \<^verbatim>\<open>unflatten({})\<close> is \<^verbatim>\<open>{}\<close>.
\<close>

theorem convert_to_list_empty:
  "py_min [] = Inl ValueError
   \<and> try_body [] = Inl ValueError
   \<and> convert_to_list (Mapping []) = Inr (Mapping [])
   \<and> unflatten [] = Inr (Mapping [])"
  by code_simp

text \<open>
  C2. The NaN test of \<^verbatim>\<open>unflatten\<close> comes after the loop that creates the
  intermediate dictionaries: on \<^verbatim>\<open>{"a.b": float("nan")}\<close>, where every entry under
  \<^verbatim>\<open>"a"\<close> is NaN, the result is \<^verbatim>\<open>{"a": {}}\<close>, with an empty dictionary at
  \<^verbatim>\<open>"a"\<close>.
\<close>

theorem unflatten_nan_leaves_empty_node:
  "unflatten [(Some ''a.b'', PNaN)] = Inr (Mapping [(''a'', Mapping [])])"
  by code_simp

text \<open>
  C3. \<^verbatim>\<open>convert_to_list\<close> returns the values of a converted dictionary as they are,
  without converting them: on \<^verbatim>\<open>{"a.0.0": 1}\<close>, which is \<^verbatim>\<open>flatten({"a": [[1]]})\<close>,
  the result is \<^verbatim>\<open>{"a": [{"0": 1}]}\<close>, whose inner dictionary has the single key
  \<^verbatim>\<open>"0"\<close>.
\<close>

theorem unflatten_nested_sequence_not_converted:
  "unflatten [(Some ''a.0.0'', PInt 1)]
     = Inr (Mapping [(''a'', Seq [Mapping [(''0'', Scalar (PInt 1))]])])"
  by code_simp

text \<open>
  C4. A dictionary whose keys parse as a contiguous range of integers is looked up
  under \<^verbatim>\<open>str(k)\<close>: on \<^verbatim>\<open>{"x.01": "a"}\<close> the only key of the node \<^verbatim>\<open>"x"\<close> parses
  as 1, the lookup of \<^verbatim>\<open>"1"\<close> fails, and \<^verbatim>\<open>unflatten\<close> raises \<^verbatim>\<open>KeyError\<close>.
\<close>

theorem unflatten_noncanonical_key_raises:
  "unflatten [(Some ''x.01'', PStr ''a'')] = Inl KeyError"
  by code_simp

section \<open>flatten builds keys by prefixing\<close>

text \<open>
  Storing under keys renamed by an injective function is renaming the keys of what is
  stored.
\<close>

lemma dict_set_map_key:
  "inj f \<Longrightarrow> dict_set (map (\<lambda>(k, v). (f k, v)) a) (f k) v = map (\<lambda>(k, v). (f k, v)) (dict_set a k v)"
  by (induction a) (auto simp: inj_eq)

lemma dict_update_map_key:
  "inj f \<Longrightarrow> dict_update (map (\<lambda>(k, v). (f k, v)) a) (map (\<lambda>(k, v). (f k, v)) b)
     = map (\<lambda>(k, v). (f k, v)) (dict_update a b)"
  by (induction b arbitrary: a) (auto simp: dict_set_map_key)

lemma inj_prefix_key: "sep \<noteq> [] \<Longrightarrow> inj (prefix_key seg sep)"
  by (auto simp: inj_def prefix_key_def split: option.splits)

lemma dict_update_prefixed:
  "sep \<noteq> [] \<Longrightarrow> dict_update (prefixed seg sep a) (prefixed seg sep b) = prefixed seg sep (dict_update a b)"
  unfolding prefixed_def by (rule dict_update_map_key) (rule inj_prefix_key)

lemma prefix_key_new_key:
  "Some (new_key (prefix_key seg sep pk) sep k) = prefix_key seg sep (Some (new_key pk sep k))"
  by (simp add: new_key_def prefix_key_def split: option.splits)

lemma flatten_prefix:
  assumes "sep \<noteq> []"
  shows "flatten v (prefix_key seg sep pk) sep = prefixed seg sep (flatten v pk sep)"
    and "flatten_list vs i (prefix_key seg sep pk) sep (prefixed seg sep items)
           = prefixed seg sep (flatten_list vs i pk sep items)"
    and "flatten_dict kvs (prefix_key seg sep pk) sep (prefixed seg sep items)
           = prefixed seg sep (flatten_dict kvs pk sep items)"
proof (induction v and vs i and kvs arbitrary: pk and pk items and pk items
       rule: leaves_leaves_list_leaves_dict.induct)
  case (1 s)
  show ?case by (simp add: prefixed_def)
next
  case (2 xs)
  from 2 [of pk "[]"] show ?case by (simp add: prefixed_def)
next
  case (3 kvs)
  from 3 [of pk "[]"] show ?case by (simp add: prefixed_def)
next
  case (4 i)
  show ?case by simp
next
  case (5 v vs i)
  show ?case
    by (simp add: prefix_key_new_key "5.IH"(1) dict_update_prefixed [OF assms] "5.IH"(2))
next
  case 6
  show ?case by simp
next
  case (7 k v kvs)
  show ?case
    by (simp add: prefix_key_new_key "7.IH"(1) dict_update_prefixed [OF assms] "7.IH"(2))
qed

lemma flatten_eq_flatten_spec:
  assumes "sep \<noteq> []"
  shows "flatten v None sep = flatten_spec v sep"
    and "flatten_list vs i None sep items = flatten_spec_list vs i sep items"
    and "flatten_dict kvs None sep items = flatten_spec_dict kvs sep items"
proof (induction v and vs i and kvs arbitrary: and items and items
       rule: leaves_leaves_list_leaves_dict.induct)
  case (5 v vs i)
  have "flatten v (Some (str_nat i)) sep = prefixed (str_nat i) sep (flatten v None sep)"
    using flatten_prefix(1) [OF assms, of v "str_nat i" None] by (simp add: prefix_key_def)
  then show ?case by (simp add: new_key_def 5)
next
  case (7 k v kvs)
  have "flatten v (Some k) sep = prefixed k sep (flatten v None sep)"
    using flatten_prefix(1) [OF assms, of v k None] by (simp add: prefix_key_def)
  then show ?case by (simp add: new_key_def 7)
qed simp_all

text \<open>
  C5. For a non-empty separator, \<^verbatim>\<open>flatten\<close> is flattening by prefixing: the keys of
  the value under a dictionary key are prefixed with that key and the separator, those
  of a list element with its zero-based position in decimal and the separator (a leaf
  gets the key or the position alone). On the example of the docstring the result is
  \<^verbatim>\<open>{"a": 1, "b.c": 2, "b.d.e": 3, "f.0": 4, "f.1": 5}\<close>.
\<close>

theorem flatten_prefixes_keys:
  "(sep \<noteq> [] \<longrightarrow> flatten v None sep = flatten_spec v sep)
   \<and> flatten nested_example None ''.''
       = [(Some ''a'', PInt 1), (Some ''b.c'', PInt 2), (Some ''b.d.e'', PInt 3),
          (Some ''f.0'', PInt 4), (Some ''f.1'', PInt 5)]"
proof
  show "sep \<noteq> [] \<longrightarrow> flatten v None sep = flatten_spec v sep"
    by (simp add: flatten_eq_flatten_spec(1))
  show "flatten nested_example None ''.''
       = [(Some ''a'', PInt 1), (Some ''b.c'', PInt 2), (Some ''b.d.e'', PInt 3),
          (Some ''f.0'', PInt 4), (Some ''f.1'', PInt 5)]"
    by code_simp
qed

theorem flatten_prefixes_keys_witness:
  "''.'' \<noteq> [] \<and> flatten nested_example None ''.'' = flatten_spec nested_example ''.''"
  using flatten_prefixes_keys [of "''.''" nested_example] by simp

section \<open>The conversion pass at a node with a key that is not an integer\<close>













section \<open>Paths, keys and indices\<close>

subsection \<open>Splitting a joined path\<close>

lemma str_split_not_Nil: "str_split s c \<noteq> []"
  by (induction s) (auto split: list.splits)

lemma str_split_dot_free: "c \<notin> set s \<Longrightarrow> str_split s c = [s]"
  by (induction s) auto

lemma str_split_append:
  "c \<notin> set s \<Longrightarrow> str_split (s @ c # t) c = s # str_split t c"
  by (induction s) (auto split: list.splits)

lemma str_split_join_path:
  "p \<noteq> [] \<Longrightarrow> \<forall>seg \<in> set p. CHR ''.'' \<notin> set seg
     \<Longrightarrow> str_split (join_path p) CHR ''.'' = p"
proof (induction p rule: join_path.induct)
  case 1
  then show ?case by simp
next
  case (2 seg)
  then show ?case by (simp add: str_split_dot_free)
next
  case (3 seg v va)
  then show ?case by (simp add: str_split_append)
qed

lemma path_key_inject:
  assumes "path_key p = path_key q"
    and "\<forall>seg \<in> set p. CHR ''.'' \<notin> set seg" and "\<forall>seg \<in> set q. CHR ''.'' \<notin> set seg"
  shows "p = q"
proof (cases "p = [] \<or> q = []")
  case True
  with assms(1) show ?thesis by (auto simp: path_key_def split: if_splits)
next
  case False
  with assms(1) have "join_path p = join_path q" by (simp add: path_key_def)
  then have "str_split (join_path p) CHR ''.'' = str_split (join_path q) CHR ''.''" by simp
  with False assms(2,3) show ?thesis by (simp add: str_split_join_path)
qed

lemma prefix_key_path_key:
  "prefix_key k ''.'' (path_key p) = path_key (k # p)"
  by (cases p) (simp_all add: prefix_key_def path_key_def)

subsection \<open>Parsing the decimal rendering\<close>

lemma digit_val_digit_char: "d < 10 \<Longrightarrow> digit_val (digit_char d) = Some d"
proof -
  assume "d < 10"
  then have "d = 0 \<or> d = 1 \<or> d = 2 \<or> d = 3 \<or> d = 4 \<or> d = 5 \<or> d = 6 \<or> d = 7 \<or> d = 8 \<or> d = 9"
    by arith
  then show ?thesis
    by (elim disjE) (simp_all add: digit_val_def digit_char_def decimal_digits_def upt_rec)
qed

lemma digit_val_underscore: "digit_val c = Some d \<Longrightarrow> c \<noteq> CHR ''_''"
  by (auto simp: digit_val_def decimal_digits_def upt_rec split: if_splits)

lemma digit_val_not_special:
  "digit_val c = Some d \<Longrightarrow> c \<noteq> CHR ''.'' \<and> c \<noteq> CHR ''-'' \<and> c \<noteq> CHR ''+'' \<and> \<not> is_space c"
  by (auto simp: digit_val_def decimal_digits_def is_space_def upt_rec split: if_splits)

lemma str_nat_digits: "c \<in> set (str_nat n) \<Longrightarrow> \<exists>d. digit_val c = Some d"
proof (induction n rule: str_nat.induct)
  case (1 n)
  show ?case
  proof (cases "n < 10")
    case True
    with "1.prems" show ?thesis
      by (simp add: str_nat.simps [of n] digit_val_digit_char)
  next
    case False
    with "1.prems" have "c \<in> set (str_nat (n div 10)) \<or> c = digit_char (n mod 10)"
      by (auto simp: str_nat.simps [of n])
    then show ?thesis
    proof
      assume "c \<in> set (str_nat (n div 10))"
      with False "1.IH" show ?thesis by simp
    next
      assume "c = digit_char (n mod 10)"
      then show ?thesis by (simp add: digit_val_digit_char)
    qed
  qed
qed

lemma str_nat_not_Nil: "str_nat n \<noteq> []"
  by (simp add: str_nat.simps [of n])

lemma str_nat_dot_free: "CHR ''.'' \<notin> set (str_nat n)"
  using str_nat_digits digit_val_not_special by blast

lemma digits_val_snoc:
  "\<forall>c \<in> set cs. \<exists>v. digit_val c = Some v \<Longrightarrow> d < 10
     \<Longrightarrow> digits_val (cs @ [digit_char d]) acc = map_option (\<lambda>v. 10 * v + d) (digits_val cs acc)"
proof (induction cs arbitrary: acc)
  case Nil
  then show ?case
    using digit_val_underscore [of "digit_char d" d]
    by (simp add: digit_val_digit_char)
next
  case (Cons c cs)
  then obtain v where v: "digit_val c = Some v" by auto
  then have "c \<noteq> CHR ''_''" by (rule digit_val_underscore)
  with v Cons show ?case by simp
qed

lemma unsigned_snoc:
  assumes "s \<noteq> []" and "\<forall>c \<in> set s. \<exists>v. digit_val c = Some v" and "d < 10"
  shows "unsigned (s @ [digit_char d]) = map_option (\<lambda>v. 10 * v + d) (unsigned s)"
proof -
  from assms(1) obtain c cs where s: "s = c # cs" by (cases s) auto
  with assms(2) obtain v where v: "digit_val c = Some v" by auto
  from s assms(2) have "\<forall>c \<in> set cs. \<exists>v. digit_val c = Some v" by simp
  from digits_val_snoc [OF this assms(3)] s v show ?thesis
    by (simp add: unsigned_def)
qed

lemma unsigned_str_nat: "unsigned (str_nat n) = Some n"
proof (induction n rule: str_nat.induct)
  case (1 n)
  show ?case
  proof (cases "n < 10")
    case True
    then show ?thesis
      by (simp add: str_nat.simps [of n] unsigned_def digit_val_digit_char)
  next
    case False
    have "unsigned (str_nat (n div 10) @ [digit_char (n mod 10)])
            = map_option (\<lambda>v. 10 * v + n mod 10) (unsigned (str_nat (n div 10)))"
      by (rule unsigned_snoc) (auto simp: str_nat_not_Nil dest: str_nat_digits)
    with False "1.IH" show ?thesis
      by (simp add: str_nat.simps [of n])
  qed
qed

lemma strip_id:
  assumes "s \<noteq> []" and "\<not> is_space (hd s)" and "\<not> is_space (last s)"
  shows "strip s = s"
proof -
  from assms(1,2) have "dropWhile is_space s = s" by (cases s) auto
  moreover from assms(1,3) have "dropWhile is_space (rev s) = rev s"
    by (cases "rev s") (auto simp: last_rev [symmetric] simp del: last_rev)
  ultimately show ?thesis by (simp add: strip_def)
qed

lemma py_int_str_nat: "py_int (str_nat n) = Some (int n)"
proof -
  obtain c cs where s: "str_nat n = c # cs"
    using str_nat_not_Nil [of n] by (cases "str_nat n") auto
  have digits: "\<And>x. x \<in> set (str_nat n) \<Longrightarrow> x \<noteq> CHR ''-'' \<and> x \<noteq> CHR ''+'' \<and> \<not> is_space x"
    using str_nat_digits digit_val_not_special by blast
  have "hd (str_nat n) \<in> set (str_nat n)" "last (str_nat n) \<in> set (str_nat n)"
    using str_nat_not_Nil by simp_all
  then have "strip (str_nat n) = str_nat n"
    using digits str_nat_not_Nil by (intro strip_id) auto
  moreover from s digits [of c] have "c \<noteq> CHR ''-''" "c \<noteq> CHR ''+''" by simp_all
  ultimately have "py_int (str_nat n) = map_option int (unsigned (c # cs))"
    using s by (simp add: py_int_def)
  with s unsigned_str_nat [of n] show ?thesis by simp
qed

lemma str_nat_inject:
  assumes "str_nat m = str_nat n"
  shows "m = n"
proof -
  from assms have "py_int (str_nat m) = py_int (str_nat n)" by (rule arg_cong)
  then show ?thesis by (simp only: py_int_str_nat option.inject of_nat_eq_iff)
qed

lemma str_int_int: "str_int (int n) = str_nat n"
  by (simp add: str_int_def)

subsection \<open>Storing under new keys\<close>

lemma dict_set_fresh: "k \<notin> fst ` set a \<Longrightarrow> dict_set a k v = a @ [(k, v)]"
  by (induction a) auto

lemma dict_update_fresh:
  "distinct (map fst b) \<Longrightarrow> fst ` set a \<inter> fst ` set b = {} \<Longrightarrow> dict_update a b = a @ b"
proof (induction b arbitrary: a)
  case Nil
  then show ?case by simp
next
  case (Cons x b)
  obtain k v where x: "x = (k, v)" by (cases x)
  with Cons.prems have "k \<notin> fst ` set a" by auto
  then have "dict_set a k v = a @ [(k, v)]" by (rule dict_set_fresh)
  moreover have "dict_update (a @ [(k, v)]) b = (a @ [(k, v)]) @ b"
    using Cons.prems x by (intro Cons.IH) auto
  ultimately show ?case using x by simp
qed

end
